theory Spec2Isabelle
  imports Complex_Main "HOL-Library.Sublist"
begin

section \<open>Numbers\<close>

text \<open>
  The program computes with Python floats, IEEE binary64. A finite float denotes a real
  number and is modelled by it, so \<open>0.0\<close> and \<open>-0.0\<close> are one value. \<open>round(x, 2)\<close> rounds
  the value of the float \<open>x\<close> to the nearest multiple of 1/100, a tie going to the even
  neighbour, and returns the float nearest to that decimal; the model identifies this
  float with the decimal it prints as.
\<close>

definition round_half_even :: "real \<Rightarrow> int" where
  "round_half_even y =
     (let f = \<lfloor>y\<rfloor>; d = y - of_int f
      in if d < 1 / 2 then f
         else if 1 / 2 < d then f + 1
         else if even f then f else f + 1)"

definition round2 :: "real \<Rightarrow> real" where
  \<comment> \<open>\<open>round(x, 2)\<close>\<close>
  "round2 x = of_int (round_half_even (x * 100)) / 100"

text \<open>
  The result of a float operation: a finite float, an infinity or NaN. On the infinities
  and on NaN \<open>round(x, 2)\<close> returns its argument.
\<close>

datatype pyfloat = Fin real | PInf | NInf | NaN

definition round_float2 :: "pyfloat \<Rightarrow> pyfloat" where
  "round_float2 x = (case x of Fin r \<Rightarrow> Fin (round2 r) | _ \<Rightarrow> x)"

definition negative :: "pyfloat \<Rightarrow> bool" where
  "negative x = (case x of Fin r \<Rightarrow> r < 0 | NInf \<Rightarrow> True | _ \<Rightarrow> False)"

text \<open>
  The float product \<open>x * y\<close> is the exact product rounded to the nearest binary64 value,
  a tie going to the even significand. \<open>binade x\<close> is the exponent \<open>e\<close> with
  \<open>2 ^ e \<le> |x| < 2 ^ (e + 1)\<close>, kept within the exponent range \<open>-1022 .. 1023\<close>; the
  significand has 53 bits, so the spacing of the floats around \<open>x\<close> is \<open>2 ^ (e - 52)\<close>
  (\<open>2 ^ -1074\<close> for the subnormal numbers). A result of magnitude \<open>2 ^ 1024\<close> or more is
  an infinity.
\<close>

definition pow2 :: "int \<Rightarrow> real" where
  "pow2 e = (if 0 \<le> e then 2 ^ nat e else 1 / 2 ^ nat (- e))"

function binade_up :: "real \<Rightarrow> int \<Rightarrow> int" where
  "binade_up x e = (if e < 1023 \<and> pow2 (e + 1) \<le> x then binade_up x (e + 1) else e)"
  by pat_completeness auto
termination
  by (relation "measure (\<lambda>(x, e). nat (1023 - e))") auto

function binade_down :: "real \<Rightarrow> int \<Rightarrow> int" where
  "binade_down x e = (if - 1022 < e \<and> x < pow2 e then binade_down x (e - 1) else e)"
  by pat_completeness auto
termination
  by (relation "measure (\<lambda>(x, e). nat (e + 1022))") auto

declare binade_up.simps [simp del] binade_down.simps [simp del]

definition binade :: "real \<Rightarrow> int" where
  "binade x = (if 1 \<le> \<bar>x\<bar> then binade_up \<bar>x\<bar> 0 else binade_down \<bar>x\<bar> 0)"

definition nearest_double :: "real \<Rightarrow> pyfloat" where
  "nearest_double x =
     (let e = binade x; u = pow2 (e - 52); m = round_half_even (x / u)
      in if e = 1023 \<and> 2 ^ 53 \<le> \<bar>m\<bar> then (if 0 < x then PInf else NInf)
         else Fin (of_int m * u))"

definition float_mul :: "real \<Rightarrow> real \<Rightarrow> pyfloat" where
  "float_mul x y = nearest_double (x * y)"

text \<open>
  \<open>str\<close> of a float prints the shortest decimal that reads back as the same float. For a
  value with at most two decimals, as \<open>round(x, 2)\<close> returns it, that is the decimal
  expansion with one or two fractional digits (\<open>85.3\<close>, \<open>104.0\<close>, \<open>29.99\<close>). Two cases of
  Python's printing are outside this definition: \<open>-0.0\<close>, which is the value \<open>0\<close> here
  and prints as \<open>0.0\<close>, and magnitudes from \<open>1e16\<close>, which Python prints with an
  exponent.
\<close>

definition digit :: "nat \<Rightarrow> char" where
  "digit d = ''0123456789'' ! d"

fun digits :: "nat \<Rightarrow> string" where
  "digits n = (if n < 10 then [digit n] else digits (n div 10) @ [digit (n mod 10)])"

declare digits.simps [simp del]

definition str_float :: "real \<Rightarrow> string" where
  "str_float x =
     (let n = round_half_even (x * 100); a = nat \<bar>n\<bar>; frac = a mod 100
      in (if n < 0 then ''-'' else []) @ digits (a div 100) @ ''.'' @
         (if frac mod 10 = 0 then [digit (frac div 10)]
          else [digit (frac div 10), digit (frac mod 10)]))"

section \<open>Data model\<close>

text \<open>The dictionary appended to \<open>st.session_state.history\<close> (lines 54 to 58).\<close>

record event =
  Time :: string
  Voltage :: real
  Current :: real
  Temp :: real
  Power :: pyfloat
  Score :: real
  Rem_Life :: string
  Rec_Load :: string
  Suitability :: string

text \<open>
  \<open>st.session_state\<close> holds one key, \<open>history\<close>; \<open>None\<close> is the state in which the key is
  absent (a fresh session).
\<close>

type_synonym session_state = "event list option"

datatype error = NameError | IndexError | ValueError

text \<open>
  The calls made on an \<open>FPDF\<close> object, in order.
  \<open>Cell w h txt border ln align\<close> is \<open>cell(w, h, txt, border, ln, align)\<close>.
\<close>

datatype pdf_op =
    Add_page
  | Set_font string string nat
  | Cell nat nat string nat bool string
  | Ln "nat option"

type_synonym pdf = "pdf_op list"

text \<open>
  What the script takes from outside the repository. The two artifacts loaded at lines 15
  and 16: a name whose load failed stays undefined (\<open>None\<close>), and a loaded artifact is an
  opaque function that may raise. The \<open>FPDF\<close> library of line 9: \<open>None\<close> when the import
  failed, otherwise the exception, if any, that the library raises on a document. The
  three \<open>plotly\<close> calls of the dashboard, \<open>go.Indicator\<close> (line 79), \<open>px.scatter_3d\<close>
  (line 96) and \<open>px.bar\<close> (line 101): each gives the exception, if any, that the call raises
  on its data.
\<close>

record artifacts =
  model :: "(pyfloat list list \<Rightarrow> error + real list) option"
  scaler :: "(pyfloat list list \<Rightarrow> error + pyfloat list list) option"
  fpdf :: "(pdf \<Rightarrow> error option) option"
  indicator :: "real \<Rightarrow> error option"
  scatter_3d :: "event list \<Rightarrow> error option"
  bar :: "event list \<Rightarrow> error option"

section \<open>Sidebar inputs and the feature vector\<close>

definition power_value :: "real \<Rightarrow> real \<Rightarrow> pyfloat" where
  \<comment> \<open>line 33: \<open>power = round(v * i, 2)\<close>\<close>
  "power_value v i = round_float2 (float_mul v i)"

definition input_array :: "real \<Rightarrow> real \<Rightarrow> real \<Rightarrow> pyfloat list list" where
  \<comment> \<open>line 47: \<open>np.array([[v, i, t, power]])\<close>\<close>
  "input_array v i t = [[Fin v, Fin i, Fin t, power_value v i]]"

section \<open>Classification\<close>

definition get_detailed_prediction :: "real \<Rightarrow> string \<times> string \<times> string" where
  "get_detailed_prediction score =
     (if score \<ge> 80 then
        (''2 - 3 Years'', ''High (Up to 500W)'', ''Excellent (Solar/UPS/EV)'')
      else if score \<ge> 50 then
        (''1 - 2 Years'', ''Medium (Up to 150W)'', ''Good (LED/Fans/Small Electronics)'')
      else if score \<ge> 30 then
        (''6 Months - 1 Year'', ''Low (Below 50W)'', ''Fair (Emergency backup only)'')
      else
        (''0 Months'', ''No Load (Recycle)'', ''Critical (Not safe for use)''))"

section \<open>The prediction request\<close>

text \<open>
  Line 49, \<open>model.predict(scaled_data)[0]\<close>, and lines 47 to 49 together. An undefined
  name raises \<open>NameError\<close>; \<open>[0]\<close> on an empty result raises \<open>IndexError\<close>; whatever the
  artifacts raise propagates.
\<close>

definition predict_first :: "artifacts \<Rightarrow> pyfloat list list \<Rightarrow> error + real" where
  "predict_first a scaled_data =
     (case model a of
        None \<Rightarrow> Inl NameError
      | Some predict \<Rightarrow>
          (case predict scaled_data of
             Inl e \<Rightarrow> Inl e
           | Inr ys \<Rightarrow> (case ys of [] \<Rightarrow> Inl IndexError | y # _ \<Rightarrow> Inr y)))"

definition prediction :: "artifacts \<Rightarrow> real \<Rightarrow> real \<Rightarrow> real \<Rightarrow> error + real" where
  "prediction a v i t =
     (case scaler a of
        None \<Rightarrow> Inl NameError
      | Some transform \<Rightarrow>
          (case transform (input_array v i t) of
             Inl e \<Rightarrow> Inl e
           | Inr scaled_data \<Rightarrow> predict_first a scaled_data))"

text \<open>
  The body of the button branch, lines 47 to 58, on the history list. \<open>now\<close> is the value
  of \<open>datetime.now().strftime("%H:%M:%S")\<close>. An exception leaves the branch before the
  \<open>append\<close> of line 54.
\<close>

definition predict_pressed ::
  "artifacts \<Rightarrow> string \<Rightarrow> real \<Rightarrow> real \<Rightarrow> real \<Rightarrow> event list \<Rightarrow> error + event list" where
  "predict_pressed a now v i t history =
     (case prediction a v i t of
        Inl e \<Rightarrow> Inl e
      | Inr p \<Rightarrow>
          (let score = round2 p;
               (rem_life, rec_load, suitability) = get_detailed_prediction score
           in Inr (history @
                [\<lparr>Time = now, Voltage = v, Current = i, Temp = t, Power = power_value v i,
                  Score = score, Rem_Life = rem_life, Rec_Load = rec_load,
                  Suitability = suitability\<rparr>])))"

section \<open>The report\<close>

definition add_page :: "pdf \<Rightarrow> pdf" where
  "add_page pdf = pdf @ [Add_page]"

definition set_font :: "string \<Rightarrow> string \<Rightarrow> nat \<Rightarrow> pdf \<Rightarrow> pdf" where
  "set_font family style sz pdf = pdf @ [Set_font family style sz]"

definition cell :: "nat \<Rightarrow> nat \<Rightarrow> string \<Rightarrow> nat \<Rightarrow> bool \<Rightarrow> string \<Rightarrow> pdf \<Rightarrow> pdf" where
  "cell w h txt border l align pdf = pdf @ [Cell w h txt border l align]"

definition ln_pdf :: "nat option \<Rightarrow> pdf \<Rightarrow> pdf" where
  "ln_pdf h pdf = pdf @ [Ln h]"

text \<open>The body of the loop of line 125, lines 126 to 131.\<close>

definition row_cells :: "event \<Rightarrow> pdf \<Rightarrow> pdf" where
  "row_cells row pdf =
     (let pdf = cell 20 10 (Time row) 1 False [] pdf;
          pdf = cell 20 10 (str_float (Score row) @ ''%'') 1 False [] pdf;
          pdf = cell 40 10 (Rem_Life row) 1 False [] pdf;
          pdf = cell 40 10 (Rec_Load row) 1 False [] pdf;
          pdf = cell 70 10 (Suitability row) 1 False [] pdf
      in ln_pdf None pdf)"

fun iterrows :: "event list \<Rightarrow> pdf \<Rightarrow> pdf" where
  "iterrows [] pdf = pdf"
| "iterrows (row # rest) pdf = iterrows rest (row_cells row pdf)"

text \<open>
  The calls of \<open>export_pdf\<close> on its \<open>FPDF\<close> object, lines 109 to 131. \<open>now\<close> is the value of
  \<open>datetime.now().strftime('%Y-%m-%d %H:%M')\<close> read at line 113.
\<close>

definition report_calls :: "string \<Rightarrow> event list \<Rightarrow> pdf" where
  "report_calls now dataframe =
     (let pdf = [];
          pdf = add_page pdf;
          pdf = set_font ''Arial'' ''B'' 18 pdf;
          pdf = cell 190 15 ''Battery Health Prediction Report'' 0 True ''C'' pdf;
          pdf = set_font ''Arial'' [] 10 pdf;
          pdf = cell 190 10 (''Report Generated: '' @ now) 0 True ''C'' pdf;
          pdf = ln_pdf (Some 10) pdf;
          pdf = set_font ''Arial'' ''B'' 9 pdf;
          pdf = cell 20 10 ''Time'' 1 False [] pdf;
          pdf = cell 20 10 ''Health %'' 1 False [] pdf;
          pdf = cell 40 10 ''Est. Life'' 1 False [] pdf;
          pdf = cell 40 10 ''Rec. Load'' 1 False [] pdf;
          pdf = cell 70 10 ''Suitability'' 1 False [] pdf;
          pdf = ln_pdf None pdf;
          pdf = set_font ''Arial'' [] 8 pdf
      in iterrows dataframe pdf)"

text \<open>
  The byte stream of line 133, \<open>pdf.output(dest='S').encode('latin-1')\<close>. \<open>FPDF\<close> encodes
  in it the recorded calls and a \<open>/CreationDate\<close> that it reads from the clock itself, to
  the second; the byte stream is modelled by these two.
\<close>

record pdf_bytes =
  calls :: pdf
  creation_date :: string

text \<open>
  The two readings of the clock in one export: the minute printed by line 113 and the
  second stamped by \<open>FPDF\<close>.
\<close>

record export_clock =
  minute :: string
  created :: string

text \<open>
  \<open>export_pdf\<close>, lines 107 to 133. With the import of line 9 failed, \<open>FPDF()\<close> at line 108
  raises \<open>NameError\<close>.
\<close>

definition export_pdf :: "artifacts \<Rightarrow> export_clock \<Rightarrow> event list \<Rightarrow> error + pdf_bytes" where
  "export_pdf a now dataframe =
     (case fpdf a of
        None \<Rightarrow> Inl NameError
      | Some raises \<Rightarrow>
          (let pdf = report_calls (minute now) dataframe
           in case raises pdf of
                Some e \<Rightarrow> Inl e
              | None \<Rightarrow> Inr \<lparr>calls = pdf, creation_date = created now\<rparr>))"

text \<open>
  Reading the table back from a document: a row is a run of bordered cells closed by a
  line break, and its entry is the list of the cells' texts from left to right. Cells
  without a border (the title lines) are not table cells.
\<close>

fun table_from :: "string list \<Rightarrow> pdf \<Rightarrow> string list list" where
  "table_from cur [] = (if cur = [] then [] else [cur])"
| "table_from cur (Cell w h txt border l align # ops) =
     (if border = 0 then table_from cur ops
      else if l then (cur @ [txt]) # table_from [] ops
      else table_from (cur @ [txt]) ops)"
| "table_from cur (Ln h # ops) =
     (if cur = [] then table_from [] ops else cur # table_from [] ops)"
| "table_from cur (Add_page # ops) = table_from cur ops"
| "table_from cur (Set_font family style sz # ops) = table_from cur ops"

definition table_rows :: "pdf \<Rightarrow> string list list" where
  "table_rows doc = table_from [] doc"

section \<open>The page\<close>

text \<open>
  \<open>pd.DataFrame(st.session_state.history)\<close>: a new table with one row for each
  dictionary of the list, in the list's order. The list is read and left as it is.
\<close>

definition DataFrame :: "event list \<Rightarrow> event list" where
  "DataFrame history = history"

text \<open>\<open>xs[-1]\<close>: the last element, \<open>IndexError\<close> on an empty list.\<close>

definition index_last :: "'a list \<Rightarrow> error + 'a" where
  "index_last xs = (if xs = [] then Inl IndexError else Inr (last xs))"

text \<open>
  What the main dashboard (lines 61 to 142) shows. An exception of a chart call ends the
  run. The export runs inside the \<open>try\<close> of line 137: on any exception the \<open>except\<close> of
  line 141 shows a warning in place of the download button, and \<open>report\<close> is \<open>None\<close>.
\<close>

record dashboard =
  status :: string
  metric_life :: string
  metric_load :: string
  metric_score :: string
  gauge :: real
  df :: "event list"
  report :: "pdf_bytes option"

definition main_dashboard ::
  "artifacts \<Rightarrow> export_clock \<Rightarrow> event list \<Rightarrow> error + dashboard option" where
  "main_dashboard a now history =
     (if history \<noteq> [] then
        (case index_last history of
           Inl e \<Rightarrow> Inl e
         | Inr lst \<Rightarrow>
             (case indicator a (Score lst) of
                Some e \<Rightarrow> Inl e
              | None \<Rightarrow>
                  (let df = DataFrame history
                   in case scatter_3d a df of
                        Some e \<Rightarrow> Inl e
                      | None \<Rightarrow>
                          (case bar a df of
                             Some e \<Rightarrow> Inl e
                           | None \<Rightarrow>
                               Inr (Some
                                 \<lparr>status = ''Status: '' @ Suitability lst,
                                  metric_life = Rem_Life lst,
                                  metric_load = Rec_Load lst,
                                  metric_score = str_float (Score lst) @ ''%'',
                                  gauge = Score lst,
                                  df = df,
                                  report =
                                    (case export_pdf a now df of
                                       Inl e \<Rightarrow> None
                                     | Inr pdf_bytes \<Rightarrow> Some pdf_bytes)\<rparr>)))))
      else Inr None)"

text \<open>The data logs, lines 145 to 147.\<close>

definition data_logs :: "event list \<Rightarrow> event list option" where
  "data_logs history = (if history \<noteq> [] then Some (DataFrame history) else None)"

record page =
  dash :: "dashboard option"
  logs :: "event list option"

definition render :: "artifacts \<Rightarrow> export_clock \<Rightarrow> event list \<Rightarrow> error + page" where
  "render a now history =
     (case main_dashboard a now history of
        Inl e \<Rightarrow> Inl e
      | Inr d \<Rightarrow> Inr \<lparr>dash = d, logs = data_logs history\<rparr>)"

text \<open>
  One run of the script: the widget values of the sidebar, whether the button was
  pressed, the reading of the clock at line 55 and the readings of the export.
\<close>

record inputs =
  v_in :: real
  i_in :: real
  t_in :: real
  button :: bool
  now_hms :: string
  now_export :: export_clock

definition get_history :: "session_state \<Rightarrow> event list" where
  \<comment> \<open>lines 25 and 26\<close>
  "get_history s = (case s of None \<Rightarrow> [] | Some h \<Rightarrow> h)"

text \<open>
  An uncaught exception ends the run: the page is the error, and the session keeps the
  history as it is at that point.
\<close>

definition script :: "artifacts \<Rightarrow> inputs \<Rightarrow> session_state \<Rightarrow> session_state \<times> (error + page)" where
  "script a inp s =
     (let history = get_history s
      in if button inp then
           (case predict_pressed a (now_hms inp) (v_in inp) (i_in inp) (t_in inp) history of
              Inl e \<Rightarrow> (Some history, Inl e)
            | Inr history' \<Rightarrow> (Some history', render a (now_export inp) history'))
         else (Some history, render a (now_export inp) history))"

fun session :: "artifacts \<Rightarrow> inputs list \<Rightarrow> session_state \<Rightarrow> session_state" where
  "session a [] s = s"
| "session a (inp # rest) s = session a rest (fst (script a inp s))"

section \<open>Definitions used to state the properties\<close>

text \<open>
  The threshold table as the specification words it. The en dash and the sign
  \<open>\<le>\<close> of its labels are written as their UTF-8 bytes.
\<close>

definition en_dash :: string where
  "en_dash = [CHR 0xE2, CHR 0x80, CHR 0x93]"

definition le_sign :: string where
  "le_sign = [CHR 0xE2, CHR 0x89, CHR 0xA4]"

definition classify_spec :: "real \<Rightarrow> string \<times> string \<times> string" where
  "classify_spec score =
     (if score \<ge> 80 then
        (''2'' @ en_dash @ ''3 Years'', ''High ('' @ le_sign @ ''500W)'', ''Excellent'')
      else if score \<ge> 50 then
        (''1'' @ en_dash @ ''2 Years'', ''Medium ('' @ le_sign @ ''150W)'', ''Good'')
      else if score \<ge> 30 then
        (''6 Months'' @ en_dash @ ''1 Year'', ''Low (<50W)'', ''Fair'')
      else
        (''0 Months'', ''No Load (Recycle)'', ''Critical''))"

text \<open>The four triples of the return statements of lines 38, 40, 42 and 44.\<close>

definition excellent_band :: "string \<times> string \<times> string" where
  "excellent_band = (''2 - 3 Years'', ''High (Up to 500W)'', ''Excellent (Solar/UPS/EV)'')"

definition good_band :: "string \<times> string \<times> string" where
  "good_band =
     (''1 - 2 Years'', ''Medium (Up to 150W)'', ''Good (LED/Fans/Small Electronics)'')"

definition fair_band :: "string \<times> string \<times> string" where
  "fair_band = (''6 Months - 1 Year'', ''Low (Below 50W)'', ''Fair (Emergency backup only)'')"

definition critical_band :: "string \<times> string \<times> string" where
  "critical_band = (''0 Months'', ''No Load (Recycle)'', ''Critical (Not safe for use)'')"

text \<open>The floats that the literals \<open>12.1\<close> and \<open>0.45\<close> denote.\<close>

definition float_12_1 :: real where
  "float_12_1 = 6811694436397875 / 2 ^ 49"

definition float_0_45 :: real where
  "float_0_45 = 8106479329266893 / 2 ^ 54"

text \<open>
  Artifacts for concrete runs: a scaler that returns its input and a model that answers
  \<open>raw\<close> for the one row; and a process in which both loads failed. In both the \<open>FPDF\<close>
  library is present and raises nothing, and of the chart calls only \<open>px.scatter_3d\<close>
  raises, on a negative marker size.
\<close>

definition stub_scatter_3d :: "event list \<Rightarrow> error option" where
  "stub_scatter_3d dataframe =
     (if list_ex (\<lambda>row. negative (Power row)) dataframe then Some ValueError else None)"

definition stub_artifacts :: "real \<Rightarrow> artifacts" where
  "stub_artifacts raw =
     \<lparr>model = Some (\<lambda>rows. Inr [raw]), scaler = Some Inr, fpdf = Some (\<lambda>doc. None),
      indicator = (\<lambda>v. None), scatter_3d = stub_scatter_3d, bar = (\<lambda>dataframe. None)\<rparr>"

definition no_artifacts :: artifacts where
  "no_artifacts =
     \<lparr>model = None, scaler = None, fpdf = Some (\<lambda>doc. None),
      indicator = (\<lambda>v. None), scatter_3d = stub_scatter_3d, bar = (\<lambda>dataframe. None)\<rparr>"

text \<open>
  Two runs of the script, without and with the button, a stored event, and an event
  stored after a negative current was entered.
\<close>

definition sample_clock :: export_clock where
  "sample_clock = \<lparr>minute = ''2026-11-04 12:00'', created = ''20261104120030''\<rparr>"

definition idle_inputs :: inputs where
  "idle_inputs = \<lparr>v_in = 52, i_in = 2, t_in = 30, button = False, now_hms = ''12:00:00'',
     now_export = sample_clock\<rparr>"

definition press_inputs :: inputs where
  "press_inputs = \<lparr>v_in = 52, i_in = 2, t_in = 30, button = True, now_hms = ''12:00:01'',
     now_export = sample_clock\<rparr>"

definition sample_event :: event where
  "sample_event = \<lparr>Time = ''11:59:00'', Voltage = 48, Current = 1, Temp = 25, Power = Fin 48,
     Score = 45, Rem_Life = ''6 Months - 1 Year'', Rec_Load = ''Low (Below 50W)'',
     Suitability = ''Fair (Emergency backup only)''\<rparr>"

definition negative_event :: event where
  "negative_event = \<lparr>Time = ''11:59:30'', Voltage = 52, Current = - 2, Temp = 30,
     Power = Fin (- 104), Score = 45, Rem_Life = ''6 Months - 1 Year'',
     Rec_Load = ''Low (Below 50W)'', Suitability = ''Fair (Emergency backup only)''\<rparr>"

text \<open>An event whose three stored labels are the classification of its stored score.\<close>

definition consistent :: "event \<Rightarrow> bool" where
  "consistent e \<longleftrightarrow>
     (Rem_Life e, Rec_Load e, Suitability e) = get_detailed_prediction (Score e)"


section \<open>Float arithmetic and the stub artifacts\<close>

lemma pow2_powi: "pow2 e = 2 powi e"
  by (simp add: pow2_def power_int_def inverse_eq_divide power_one_over)

lemma pow2_mono: "a \<le> b \<Longrightarrow> pow2 a \<le> pow2 b"
  by (simp add: pow2_powi power_int_increasing)

lemma binade_up_top: "e \<le> 1023 \<Longrightarrow> pow2 1024 \<le> x \<Longrightarrow> binade_up x e = 1023"
proof (induction x e rule: binade_up.induct)
  case (1 x e)
  show ?case
  proof (cases "e < 1023")
    case True
    then have "pow2 (e + 1) \<le> pow2 1024"
      by (intro pow2_mono) simp
    with "1.prems" have le: "pow2 (e + 1) \<le> x" by simp
    from True le have "binade_up x e = binade_up x (e + 1)"
      by (subst binade_up.simps) simp
    also from True le "1.prems" have "\<dots> = 1023"
      by (intro "1.IH") simp_all
    finally show ?thesis .
  next
    case False
    with "1.prems" have "e = 1023" by simp
    then show ?thesis
      by (subst binade_up.simps) simp
  qed
qed

lemma round_half_even_ge_floor: "\<lfloor>y\<rfloor> \<le> round_half_even y"
  by (simp add: round_half_even_def Let_def)

lemma nearest_double_overflow:
  assumes "pow2 1024 \<le> x"
  shows "nearest_double x = PInf"
proof -
  have one: "(1::real) \<le> pow2 1024"
    by (simp add: pow2_def)
  with assms have pos: "0 < x" and ax: "\<bar>x\<bar> = x" and ge1: "1 \<le> \<bar>x\<bar>"
    by simp_all
  have b: "binade x = 1023"
    using binade_up_top [of 0 x] assms ge1 ax by (simp add: binade_def)
  have "pow2 1024 = 2 ^ 53 * pow2 971"
    by (simp add: pow2_def flip: power_add)
  with assms have "2 ^ 53 \<le> x / pow2 971"
    by (simp add: pow2_def pos_le_divide_eq)
  then have "(2 ^ 53 :: int) \<le> \<lfloor>x / pow2 971\<rfloor>"
    by (simp add: le_floor_iff)
  also have "\<dots> \<le> round_half_even (x / pow2 971)"
    by (rule round_half_even_ge_floor)
  finally have "(2 ^ 53 :: int) \<le> \<bar>round_half_even (x / pow2 971)\<bar>"
    by simp
  with b pos show ?thesis
    by (simp add: nearest_double_def Let_def)
qed

lemma power_52_2: "power_value 52 2 = Fin 104"
  by code_simp

lemma power_12_1_0_45: "power_value float_12_1 float_0_45 = Fin (545 / 100)"
  by code_simp

lemma power_overflow: "power_value (2 ^ 600) (2 ^ 600) = PInf"
proof -
  have "pow2 1024 \<le> (2 ^ 600 :: real) * 2 ^ 600"
    by (simp add: pow2_def flip: power_add)
  then show ?thesis
    by (simp add: power_value_def float_mul_def nearest_double_overflow round_float2_def)
qed

lemma exact_product_differs: "round2 (float_12_1 * float_0_45) = 544 / 100"
  by code_simp

lemma round2_85337: "round2 (85337 / 1000) = 8534 / 100"
  by (simp add: round2_def round_half_even_def)

lemma prediction_stub: "prediction (stub_artifacts raw) v i t = Inr raw"
  by (simp add: prediction_def predict_first_def stub_artifacts_def)

lemma prediction_no_artifacts: "prediction no_artifacts v i t = Inl NameError"
  by (simp add: prediction_def no_artifacts_def)

section \<open>The feature vector\<close>

text \<open>
  C1. The row built at line 47 is \<open>(voltage, current, temperature, power)\<close> in this order,
  its power component is \<open>round(voltage * current, 2)\<close> with the float product and
  Python's rounding, and this row is what the request hands to the scaler. For the
  reading \<open>(52.0, 2.0, 30.0)\<close> the power component is \<open>104.0\<close>; for \<open>(12.1, 0.45, 30.0)\<close> it
  is \<open>5.45\<close>, since the float product lies above 5.445 while the exact product of the two
  floats lies below it; a product beyond the float range gives the power \<open>inf\<close>.
\<close>

theorem feature_vector_order:
  "input_array v i t = [[Fin v, Fin i, Fin t, round_float2 (float_mul v i)]] \<and>
   (scaler a = Some transform \<longrightarrow>
      prediction a v i t =
        (case transform [[Fin v, Fin i, Fin t, round_float2 (float_mul v i)]] of
           Inl e \<Rightarrow> Inl e
         | Inr scaled_data \<Rightarrow> predict_first a scaled_data)) \<and>
   input_array 52 2 30 = [[Fin 52, Fin 2, Fin 30, Fin 104]] \<and>
   input_array float_12_1 float_0_45 30 =
     [[Fin float_12_1, Fin float_0_45, Fin 30, Fin (545 / 100)]] \<and>
   input_array (2 ^ 600) (2 ^ 600) 30 = [[Fin (2 ^ 600), Fin (2 ^ 600), Fin 30, PInf]]"
proof (intro conjI impI)
  show "input_array v i t = [[Fin v, Fin i, Fin t, round_float2 (float_mul v i)]]"
    by (simp add: input_array_def power_value_def)
  show "input_array 52 2 30 = [[Fin 52, Fin 2, Fin 30, Fin 104]]"
    using power_52_2 by (simp add: input_array_def)
  show "input_array float_12_1 float_0_45 30 =
     [[Fin float_12_1, Fin float_0_45, Fin 30, Fin (545 / 100)]]"
    using power_12_1_0_45 by (simp add: input_array_def)
  show "input_array (2 ^ 600) (2 ^ 600) 30 = [[Fin (2 ^ 600), Fin (2 ^ 600), Fin 30, PInf]]"
    using power_overflow by (simp add: input_array_def)
next
  assume "scaler a = Some transform"
  then show "prediction a v i t =
        (case transform [[Fin v, Fin i, Fin t, round_float2 (float_mul v i)]] of
           Inl e \<Rightarrow> Inl e
         | Inr scaled_data \<Rightarrow> predict_first a scaled_data)"
    by (simp add: prediction_def input_array_def power_value_def)
qed

theorem feature_vector_order_witness:
  "scaler (stub_artifacts 85) = Some Inr \<and>
   prediction (stub_artifacts 85) 52 2 30 =
     predict_first (stub_artifacts 85) [[Fin 52, Fin 2, Fin 30, Fin 104]]"
proof -
  have s: "scaler (stub_artifacts 85) = Some Inr"
    by (simp add: stub_artifacts_def)
  have "round_float2 (float_mul 52 2) = Fin 104"
    using power_52_2 by (simp add: power_value_def)
  with s feature_vector_order [of 52 2 30 "stub_artifacts 85" Inr]
  show ?thesis by simp
qed

section \<open>The classifier\<close>

lemma bands_distinct: "distinct [excellent_band, good_band, fair_band, critical_band]"
  by (simp add: excellent_band_def good_band_def fair_band_def critical_band_def)

lemma band_cases:
  "get_detailed_prediction s =
     (if 80 \<le> s then excellent_band else if 50 \<le> s then good_band
      else if 30 \<le> s then fair_band else critical_band)"
  by (simp add: get_detailed_prediction_def excellent_band_def good_band_def fair_band_def
      critical_band_def)

text \<open>
  C2, as stated: the classifier returns the label triples of the specification's table.
  It does not: at score 85 the code's labels are \<open>2 - 3 Years\<close>, \<open>High (Up to 500W)\<close> and
  \<open>Excellent (Solar/UPS/EV)\<close>.
\<close>

theorem classify_labels_counterexample:
  "get_detailed_prediction 85 \<noteq> classify_spec 85"
  by (simp add: get_detailed_prediction_def classify_spec_def)

text \<open>
  C2, amended: with the thresholds evaluated high to low, a score of at least 80 yields
  \<open>(2 - 3 Years, High (Up to 500W), Excellent (Solar/UPS/EV))\<close>, a score in \<open>[50, 80)\<close>
  yields \<open>(1 - 2 Years, Medium (Up to 150W), Good (LED/Fans/Small Electronics))\<close>, a score
  in \<open>[30, 50)\<close> yields \<open>(6 Months - 1 Year, Low (Below 50W), Fair (Emergency backup only))\<close>
  and a score below 30 yields \<open>(0 Months, No Load (Recycle), Critical (Not safe for use))\<close>.
\<close>

theorem get_detailed_prediction_table:
  "(80 \<le> s \<longrightarrow> get_detailed_prediction s =
      (''2 - 3 Years'', ''High (Up to 500W)'', ''Excellent (Solar/UPS/EV)'')) \<and>
   (50 \<le> s \<and> s < 80 \<longrightarrow> get_detailed_prediction s =
      (''1 - 2 Years'', ''Medium (Up to 150W)'', ''Good (LED/Fans/Small Electronics)'')) \<and>
   (30 \<le> s \<and> s < 50 \<longrightarrow> get_detailed_prediction s =
      (''6 Months - 1 Year'', ''Low (Below 50W)'', ''Fair (Emergency backup only)'')) \<and>
   (s < 30 \<longrightarrow> get_detailed_prediction s =
      (''0 Months'', ''No Load (Recycle)'', ''Critical (Not safe for use)''))"
  by (simp add: get_detailed_prediction_def)

theorem get_detailed_prediction_table_witness:
  "(80::real) \<le> 85 \<and> get_detailed_prediction 85 =
      (''2 - 3 Years'', ''High (Up to 500W)'', ''Excellent (Solar/UPS/EV)'') \<and>
   (50::real) \<le> 65 \<and> (65::real) < 80 \<and> get_detailed_prediction 65 =
      (''1 - 2 Years'', ''Medium (Up to 150W)'', ''Good (LED/Fans/Small Electronics)'') \<and>
   (30::real) \<le> 40 \<and> (40::real) < 50 \<and> get_detailed_prediction 40 =
      (''6 Months - 1 Year'', ''Low (Below 50W)'', ''Fair (Emergency backup only)'') \<and>
   (10::real) < 30 \<and> get_detailed_prediction 10 =
      (''0 Months'', ''No Load (Recycle)'', ''Critical (Not safe for use)'')"
  using get_detailed_prediction_table [of 85] get_detailed_prediction_table [of 65]
    get_detailed_prediction_table [of 40] get_detailed_prediction_table [of 10]
  by simp

text \<open>
  C3. Every real score, also below 0 and above 100, gets exactly one of the four band
  triples, by the same thresholds and without clamping: the boundary values 80, 50 and 30
  belong to the higher band (30 is in the Fair band, 29.99 in the Critical band), every
  negative score is in the lowest band, and every score above 100 in the highest.
\<close>

theorem classify_total_no_clamping:
  "length (filter (\<lambda>b. get_detailed_prediction s = b)
             [excellent_band, good_band, fair_band, critical_band]) = 1 \<and>
   get_detailed_prediction 80 = excellent_band \<and>
   get_detailed_prediction 50 = good_band \<and>
   get_detailed_prediction 30 = fair_band \<and>
   get_detailed_prediction 29.99 = critical_band \<and>
   (s < 0 \<longrightarrow> get_detailed_prediction s = critical_band) \<and>
   (100 < s \<longrightarrow> get_detailed_prediction s = excellent_band)"
  using bands_distinct by (auto simp: band_cases)

theorem classify_total_no_clamping_witness:
  "(-5::real) < 0 \<and> get_detailed_prediction (-5) = critical_band \<and>
   (100::real) < 120 \<and> get_detailed_prediction 120 = excellent_band"
  using classify_total_no_clamping [of "-5"] classify_total_no_clamping [of 120]
  by simp

section \<open>The stored score\<close>

text \<open>
  C5. When the artifacts return the raw output \<open>p\<close>, the event appended by the request
  stores \<open>round(p, 2)\<close> as its score, and its three labels are the classification of that
  rounded score.
\<close>

theorem score_rounded:
  "prediction a v i t = Inr p \<Longrightarrow>
     \<exists>e. predict_pressed a now v i t history = Inr (history @ [e]) \<and>
         Score e = round2 p \<and>
         (Rem_Life e, Rec_Load e, Suitability e) = get_detailed_prediction (round2 p)"
  by (simp add: predict_pressed_def Let_def split: prod.splits)

theorem score_rounded_witness:
  "prediction (stub_artifacts (85337 / 1000)) 52 2 30 = Inr (85337 / 1000) \<and>
   (\<exists>e. predict_pressed (stub_artifacts (85337 / 1000)) ''12:00:01'' 52 2 30 [] =
           Inr ([] @ [e]) \<and>
        Score e = 8534 / 100 \<and>
        (Rem_Life e, Rec_Load e, Suitability e) = get_detailed_prediction (8534 / 100))"
  using score_rounded [where a = "stub_artifacts (85337 / 1000)" and v = 52 and i = 2
      and t = 30 and p = "85337 / 1000" and now = "''12:00:01''" and history = "[]"]
  by (simp only: prediction_stub round2_85337 simp_thms)

section \<open>The report\<close>

lemma row_cells_append: "row_cells row pdf = pdf @ row_cells row []"
  by (simp add: row_cells_def cell_def ln_pdf_def)

lemma iterrows_append:
  "iterrows rows pdf = pdf @ concat (map (\<lambda>row. row_cells row []) rows)"
proof (induction rows arbitrary: pdf)
  case Nil
  show ?case by simp
next
  case (Cons row rest)
  have "iterrows (row # rest) pdf = iterrows rest (row_cells row pdf)" by simp
  also have "\<dots> = row_cells row pdf @ concat (map (\<lambda>row. row_cells row []) rest)"
    by (rule Cons.IH)
  also have "\<dots> = (pdf @ row_cells row []) @ concat (map (\<lambda>row. row_cells row []) rest)"
    using row_cells_append [of row pdf] by simp
  finally show ?case by simp
qed

lemma report_calls_layout:
  "report_calls now dataframe =
     [Add_page, Set_font ''Arial'' ''B'' 18,
      Cell 190 15 ''Battery Health Prediction Report'' 0 True ''C'',
      Set_font ''Arial'' [] 10,
      Cell 190 10 (''Report Generated: '' @ now) 0 True ''C'',
      Ln (Some 10), Set_font ''Arial'' ''B'' 9,
      Cell 20 10 ''Time'' 1 False [], Cell 20 10 ''Health %'' 1 False [],
      Cell 40 10 ''Est. Life'' 1 False [], Cell 40 10 ''Rec. Load'' 1 False [],
      Cell 70 10 ''Suitability'' 1 False [], Ln None, Set_font ''Arial'' [] 8] @
     concat (map (\<lambda>row. row_cells row []) dataframe)"
  unfolding report_calls_def Let_def
  by (subst iterrows_append) (simp add: add_page_def set_font_def cell_def ln_pdf_def)

lemma table_from_data_rows:
  "table_from [] (concat (map (\<lambda>row. row_cells row []) rows)) =
     map (\<lambda>e. [Time e, str_float (Score e) @ ''%'', Rem_Life e, Rec_Load e, Suitability e]) rows"
  by (induction rows) (simp_all add: row_cells_def cell_def ln_pdf_def)

lemma export_pdf_stub:
  "export_pdf (stub_artifacts raw) now dataframe =
     Inr \<lparr>calls = report_calls (minute now) dataframe, creation_date = created now\<rparr>"
  by (simp add: export_pdf_def stub_artifacts_def Let_def)

lemma export_pdf_calls:
  "export_pdf a now dataframe = Inr pdf_bytes \<Longrightarrow>
     calls pdf_bytes = report_calls (minute now) dataframe \<and>
     creation_date pdf_bytes = created now"
  by (auto simp: export_pdf_def Let_def split: option.splits)


text \<open>
  C7. For every snapshot of n events the report's table is one header row followed by n
  data rows, one for each event in the snapshot's order, and the columns of every row are,
  from left to right, Time, Health %, Est. Life, Rec. Load, Suitability. An export that
  returns its bytes has encoded exactly these calls.
\<close>

theorem report_rows:
  "table_rows (report_calls now dataframe) =
     [''Time'', ''Health %'', ''Est. Life'', ''Rec. Load'', ''Suitability''] #
     map (\<lambda>e. [Time e, str_float (Score e) @ ''%'', Rem_Life e, Rec_Load e, Suitability e])
       dataframe \<and>
   length (table_rows (report_calls now dataframe)) = 1 + length dataframe \<and>
   (export_pdf a clock dataframe = Inr pdf_bytes \<longrightarrow>
      calls pdf_bytes = report_calls (minute clock) dataframe)"
  using export_pdf_calls [of a clock dataframe pdf_bytes]
  by (simp add: table_rows_def report_calls_layout table_from_data_rows)

theorem report_rows_witness:
  "export_pdf (stub_artifacts 85) sample_clock [sample_event, negative_event] =
     Inr \<lparr>calls = report_calls (minute sample_clock) [sample_event, negative_event],
          creation_date = created sample_clock\<rparr> \<and>
   length (table_rows (report_calls (minute sample_clock) [sample_event, negative_event])) =
     1 + length [sample_event, negative_event]"
  using report_rows [of "minute sample_clock" "[sample_event, negative_event]"
      "stub_artifacts 85" sample_clock
      "\<lparr>calls = report_calls (minute sample_clock) [sample_event, negative_event],
        creation_date = created sample_clock\<rparr>"]
  by (simp add: export_pdf_stub)




section \<open>The empty ledger\<close>


lemma main_dashboard_charts:
  "history \<noteq> [] \<Longrightarrow> indicator a (Score (last history)) = None \<Longrightarrow>
   scatter_3d a history = None \<Longrightarrow> bar a history = None \<Longrightarrow>
     \<exists>d. main_dashboard a now history = Inr (Some d) \<and>
         status d = ''Status: '' @ Suitability (last history) \<and>
         gauge d = Score (last history) \<and> df d = history"
  by (simp add: main_dashboard_def index_last_def DataFrame_def)

lemma main_dashboard_Some:
  "main_dashboard a now history = Inr (Some d) \<Longrightarrow>
     history \<noteq> [] \<and> status d = ''Status: '' @ Suitability (last history) \<and> df d = history"
  by (auto simp: main_dashboard_def index_last_def DataFrame_def Let_def
      split: if_splits option.splits)


lemma main_dashboard_None: "main_dashboard a now history = Inr None \<Longrightarrow> history = []"
  by (auto simp: main_dashboard_def index_last_def DataFrame_def Let_def
      split: if_splits option.splits)



lemma stub_charts_sample:
  "indicator no_artifacts x = None \<and> scatter_3d no_artifacts [sample_event] = None \<and>
   bar no_artifacts h = None"
  by (simp add: no_artifacts_def stub_scatter_3d_def sample_event_def negative_def)



section \<open>Snapshots\<close>

lemma script_idle:
  "\<not> button inp \<Longrightarrow>
     script a inp s = (Some (get_history s), render a (now_export inp) (get_history s))"
  by (simp add: script_def Let_def)

lemma render_snapshots:
  assumes r: "render a now history = Inr p"
  shows "logs p = data_logs history \<and> map_option df (dash p) = data_logs history"
proof (cases "main_dashboard a now history")
  case (Inl e)
  with r show ?thesis by (simp add: render_def)
next
  case (Inr d)
  with r have p: "p = \<lparr>dash = d, logs = data_logs history\<rparr>"
    by (simp add: render_def)
  show ?thesis
  proof (cases d)
    case None
    with Inr have "history = []" by (simp add: main_dashboard_None)
    with None p show ?thesis by (simp add: data_logs_def)
  next
    case (Some d')
    with Inr have "history \<noteq> [] \<and> df d' = history"
      using main_dashboard_Some [of a now history d'] by simp
    with Some p show ?thesis by (simp add: data_logs_def DataFrame_def)
  qed
qed

text \<open>
  C9. Taking the snapshot reads the ledger and leaves it as it is: the two tables built
  in one run (lines 95 and 147) are equal and hold the ledger's events in order, a run
  without a press keeps the ledger, and two such runs in a row show equal snapshots.
\<close>

theorem snapshot_idempotent:
  "(render a now history = Inr p \<longrightarrow>
      logs p = map_option df (dash p) \<and>
      logs p = (if history = [] then None else Some history)) \<and>
   (\<not> button inp1 \<longrightarrow> fst (script a inp1 s) = Some (get_history s)) \<and>
   (\<not> button inp1 \<and> \<not> button inp2 \<and> snd (script a inp1 s) = Inr p1 \<and>
    snd (script a inp2 (fst (script a inp1 s))) = Inr p2 \<longrightarrow>
      logs p1 = logs p2 \<and> map_option df (dash p1) = map_option df (dash p2))"
proof (intro conjI impI)
  assume "render a now history = Inr p"
  from render_snapshots [OF this]
  show "logs p = map_option df (dash p)"
    and "logs p = (if history = [] then None else Some history)"
    by (simp_all add: data_logs_def DataFrame_def)
next
  assume "\<not> button inp1"
  then show "fst (script a inp1 s) = Some (get_history s)"
    by (simp add: script_idle)
next
  assume h: "\<not> button inp1 \<and> \<not> button inp2 \<and> snd (script a inp1 s) = Inr p1 \<and>
    snd (script a inp2 (fst (script a inp1 s))) = Inr p2"
  then have b1: "\<not> button inp1" and b2: "\<not> button inp2"
    and s1: "snd (script a inp1 s) = Inr p1"
    and s2: "snd (script a inp2 (fst (script a inp1 s))) = Inr p2"
    by simp_all
  from s1 have r1: "render a (now_export inp1) (get_history s) = Inr p1"
    by (simp add: script_idle [OF b1])
  from s2 have r2: "render a (now_export inp2) (get_history s) = Inr p2"
    by (simp add: script_idle [OF b1] script_idle [OF b2] get_history_def)
  from render_snapshots [OF r1] render_snapshots [OF r2]
  show "logs p1 = logs p2" and "map_option df (dash p1) = map_option df (dash p2)"
    by simp_all
qed

theorem snapshot_idempotent_witness:
  "\<not> button idle_inputs \<and>
   fst (script no_artifacts idle_inputs (Some [sample_event])) = Some [sample_event] \<and>
   (\<exists>p1 p2. snd (script no_artifacts idle_inputs (Some [sample_event])) = Inr p1 \<and>
      snd (script no_artifacts idle_inputs
             (fst (script no_artifacts idle_inputs (Some [sample_event])))) = Inr p2 \<and>
      logs p1 = logs p2 \<and> map_option df (dash p1) = map_option df (dash p2) \<and>
      logs p1 = Some [sample_event])"
proof -
  have nb: "\<not> button idle_inputs"
    by (simp add: idle_inputs_def)
  obtain d where d: "main_dashboard no_artifacts (now_export idle_inputs) [sample_event] =
      Inr (Some d)" and dd: "df d = [sample_event]"
    using main_dashboard_charts [of "[sample_event]" no_artifacts "now_export idle_inputs"]
      stub_charts_sample [of "Score (last [sample_event])" "[sample_event]"]
    by auto
  define p where "p = \<lparr>dash = Some d, logs = data_logs [sample_event]\<rparr>"
  have r: "render no_artifacts (now_export idle_inputs) [sample_event] = Inr p"
    by (simp add: render_def d p_def)
  have s1: "script no_artifacts idle_inputs (Some [sample_event]) = (Some [sample_event], Inr p)"
    using script_idle [OF nb, of no_artifacts "Some [sample_event]"] r
    by (simp add: get_history_def)
  from snapshot_idempotent [of no_artifacts "now_export idle_inputs" "[sample_event]" p
      idle_inputs "Some [sample_event]" idle_inputs p p]
  show ?thesis
    using nb s1 r dd by (simp add: get_history_def p_def data_logs_def DataFrame_def)
qed

section \<open>The ledger\<close>

lemma script_history:
  "get_history (fst (script a inp s)) =
     (if button inp then
        (case predict_pressed a (now_hms inp) (v_in inp) (i_in inp) (t_in inp) (get_history s) of
           Inl e \<Rightarrow> get_history s
         | Inr h \<Rightarrow> h)
      else get_history s)"
  by (simp add: script_def Let_def get_history_def split: sum.splits)

lemma predict_pressed_Inl:
  "prediction a v i t = Inl e \<Longrightarrow> predict_pressed a now v i t history = Inl e"
  by (simp add: predict_pressed_def)

lemma predict_pressed_Inr:
  "prediction a v i t = Inr p \<Longrightarrow>
     \<exists>e. predict_pressed a now v i t history = Inr (history @ [e]) \<and>
         Time e = now \<and> Score e = round2 p"
  by (simp add: predict_pressed_def Let_def split: prod.splits)

lemma predict_pressed_cases:
  "predict_pressed a now v i t history = Inr h \<Longrightarrow> \<exists>e. h = history @ [e]"
  by (auto simp: predict_pressed_def Let_def split: sum.splits prod.splits)

lemma script_prefix: "prefix (get_history s) (get_history (fst (script a inp s)))"
  by (auto simp: script_history split: sum.splits dest: predict_pressed_cases)

lemma session_prefix: "prefix (get_history s) (get_history (session a inps s))"
proof (induction inps arbitrary: s)
  case Nil
  show ?case by simp
next
  case (Cons inp rest)
  have "prefix (get_history s) (get_history (fst (script a inp s)))"
    by (rule script_prefix)
  also have "prefix \<dots> (get_history (session a rest (fst (script a inp s))))"
    by (rule Cons.IH)
  finally show ?case by simp
qed

text \<open>
  C4. A press whose prediction succeeds appends exactly one event, which becomes the
  last element, and the length grows by one; a press whose prediction fails leaves the
  ledger unchanged and the run ends with that error; a run without a press leaves the
  ledger unchanged; and over any sequence of runs the earlier ledger is a prefix of the
  later one, so no entry is changed or removed.
\<close>

theorem ledger_append_only:
  "(button inp \<and> prediction a (v_in inp) (i_in inp) (t_in inp) = Inr p \<longrightarrow>
      (\<exists>e. get_history (fst (script a inp s)) = get_history s @ [e] \<and>
           last (get_history (fst (script a inp s))) = e \<and>
           Time e = now_hms inp \<and> Score e = round2 p) \<and>
      length (get_history (fst (script a inp s))) = length (get_history s) + 1) \<and>
   (button inp \<and> prediction a (v_in inp) (i_in inp) (t_in inp) = Inl err \<longrightarrow>
      get_history (fst (script a inp s)) = get_history s \<and> snd (script a inp s) = Inl err) \<and>
   (\<not> button inp \<longrightarrow> get_history (fst (script a inp s)) = get_history s) \<and>
   prefix (get_history s) (get_history (session a inps s))"
proof (intro conjI impI)
  assume h: "button inp \<and> prediction a (v_in inp) (i_in inp) (t_in inp) = Inr p"
  from predict_pressed_Inr [of a "v_in inp" "i_in inp" "t_in inp" p "now_hms inp" "get_history s"] h
  obtain e where e: "predict_pressed a (now_hms inp) (v_in inp) (i_in inp) (t_in inp)
      (get_history s) = Inr (get_history s @ [e])"
    and te: "Time e = now_hms inp" "Score e = round2 p"
    by blast
  from h e have eq: "get_history (fst (script a inp s)) = get_history s @ [e]"
    by (simp add: script_history)
  with te show "\<exists>e. get_history (fst (script a inp s)) = get_history s @ [e] \<and>
           last (get_history (fst (script a inp s))) = e \<and>
           Time e = now_hms inp \<and> Score e = round2 p"
    by simp
  from eq show "length (get_history (fst (script a inp s))) = length (get_history s) + 1"
    by simp
next
  assume h: "button inp \<and> prediction a (v_in inp) (i_in inp) (t_in inp) = Inl err"
  then have "predict_pressed a (now_hms inp) (v_in inp) (i_in inp) (t_in inp) (get_history s) =
      Inl err"
    by (simp add: predict_pressed_Inl)
  with h show "get_history (fst (script a inp s)) = get_history s"
    and "snd (script a inp s) = Inl err"
    by (simp_all add: script_def Let_def get_history_def)
next
  assume "\<not> button inp"
  then show "get_history (fst (script a inp s)) = get_history s"
    by (simp add: script_history)
next
  show "prefix (get_history s) (get_history (session a inps s))"
    by (rule session_prefix)
qed

theorem ledger_append_only_witness:
  "button press_inputs \<and>
   prediction (stub_artifacts (853 / 10)) (v_in press_inputs) (i_in press_inputs)
     (t_in press_inputs) = Inr (853 / 10) \<and>
   length (get_history (fst (script (stub_artifacts (853 / 10)) press_inputs None))) =
     length (get_history None) + 1 \<and>
   prediction no_artifacts (v_in press_inputs) (i_in press_inputs) (t_in press_inputs) =
     Inl NameError \<and>
   get_history (fst (script no_artifacts press_inputs (Some [sample_event]))) =
     get_history (Some [sample_event]) \<and>
   snd (script no_artifacts press_inputs (Some [sample_event])) = Inl NameError \<and>
   \<not> button idle_inputs \<and>
   get_history (fst (script no_artifacts idle_inputs (Some [sample_event]))) =
     get_history (Some [sample_event])"
proof -
  have b: "button press_inputs" and nb: "\<not> button idle_inputs"
    by (simp_all add: press_inputs_def idle_inputs_def)
  note ok = prediction_stub [of "853 / 10" "v_in press_inputs" "i_in press_inputs"
      "t_in press_inputs"]
  note ko = prediction_no_artifacts [of "v_in press_inputs" "i_in press_inputs"
      "t_in press_inputs"]
  from ledger_append_only [of press_inputs "stub_artifacts (853 / 10)" "853 / 10" None]
    ledger_append_only [of press_inputs no_artifacts _ "Some [sample_event]" NameError]
    ledger_append_only [of idle_inputs no_artifacts _ "Some [sample_event]"]
  show ?thesis
    using b nb ok ko by simp
qed

lemma predict_pressed_consistent:
  "predict_pressed a now v i t history = Inr h \<Longrightarrow>
     list_all consistent history \<Longrightarrow> list_all consistent h"
  by (auto simp: predict_pressed_def Let_def consistent_def split: sum.splits prod.splits)

lemma script_consistent:
  "list_all consistent (get_history s) \<Longrightarrow>
     list_all consistent (get_history (fst (script a inp s)))"
  by (auto simp: script_history split: sum.splits dest: predict_pressed_consistent)

lemma session_consistent:
  "list_all consistent (get_history s) \<Longrightarrow> list_all consistent (get_history (session a inps s))"
  by (induction inps arbitrary: s) (simp_all add: script_consistent)

text \<open>
  C10. If every stored event carries the labels that \<open>get_detailed_prediction\<close> gives
  for its stored score, the same holds after any sequence of runs; in particular it holds
  in every ledger reached from a fresh session.
\<close>

theorem stored_labels_consistent:
  "(list_all consistent (get_history s) \<longrightarrow>
      list_all consistent (get_history (session a inps s))) \<and>
   list_all consistent (get_history (session a inps None))"
  using session_consistent [of None a inps] session_consistent [of s a inps]
  by (simp add: get_history_def)

theorem stored_labels_consistent_witness:
  "list_all consistent (get_history (Some [sample_event])) \<and>
   list_all consistent
     (get_history (session (stub_artifacts 10) [press_inputs, idle_inputs, press_inputs]
        (Some [sample_event])))"
proof -
  have "list_all consistent (get_history (Some [sample_event]))"
    by (simp add: get_history_def consistent_def sample_event_def get_detailed_prediction_def)
  with stored_labels_consistent [of "Some [sample_event]" "stub_artifacts 10"
      "[press_inputs, idle_inputs, press_inputs]"]
  show ?thesis by simp
qed

end
